theory Spec2Isabelle
  imports Main
begin

section \<open>Python values, strings and exceptions\<close>

text \<open>
  The program is one Python module, \<^verbatim>\<open>main.py\<close>. A Python \<^verbatim>\<open>str\<close> is modelled
  as a \<^typ>\<open>string\<close>, one \<^typ>\<open>char\<close> standing for one character of the text.

  The value that \<^verbatim>\<open>json.loads\<close> hands to the program is any JSON value. A JSON
  object is the Python \<^verbatim>\<open>dict\<close> it was parsed into: an association list read
  with \<^const>\<open>map_of\<close>. The float type is left open.
\<close>

datatype 'f json =
    JNull
  | JBool bool
  | JInt int
  | JFloat 'f
  | JStr string
  | JArr "'f json list"
  | JObj "(string \<times> 'f json) list"

text \<open>
  An exception is its class and the text \<^verbatim>\<open>str(e)\<close> gives. Only the classes
  the handlers of the module tell apart are kept; every other class is
  \<open>Exception\<close>. \<open>PermissionError\<close> is a subclass of \<open>OSError\<close>, and all four are
  subclasses of \<open>Exception\<close>.
\<close>

datatype exc_class = PermissionError | OSError | AttributeError | Exception

datatype exc = Exc exc_class string

fun exc_class_of :: "exc \<Rightarrow> exc_class" where
  "exc_class_of (Exc c m) = c"

fun str_of_exc :: "exc \<Rightarrow> string" where
  "str_of_exc (Exc c m) = m"

text \<open>\<^verbatim>\<open>str.lower()\<close>, on the letters A to Z and the capital letters of Latin-1.\<close>

definition lower_char :: "char \<Rightarrow> char" where
  "lower_char c =
     (let n = (of_char c :: nat) in
      if (65 \<le> n \<and> n \<le> 90) \<or> (192 \<le> n \<and> n \<le> 222 \<and> n \<noteq> 215)
      then char_of (n + 32) else c)"

definition str_lower :: "string \<Rightarrow> string" where
  "str_lower s = map lower_char s"

text \<open>\<^verbatim>\<open>sub in s\<close>: \<open>sub\<close> occurs in \<open>s\<close> as a contiguous run.\<close>

fun starts_with :: "string \<Rightarrow> string \<Rightarrow> bool" where
  "starts_with [] s = True"
| "starts_with (p # ps) [] = False"
| "starts_with (p # ps) (c # cs) = (p = c \<and> starts_with ps cs)"

fun str_contains :: "string \<Rightarrow> string \<Rightarrow> bool" where
  "str_contains sub [] = (sub = [])"
| "str_contains sub (c # cs) = (starts_with sub (c # cs) \<or> str_contains sub cs)"

text \<open>\<^verbatim>\<open>str.strip()\<close>: the white space of Python among the first 256 characters.\<close>

definition is_space :: "char \<Rightarrow> bool" where
  "is_space c =
     (let n = (of_char c :: nat) in
      (9 \<le> n \<and> n \<le> 13) \<or> (28 \<le> n \<and> n \<le> 32) \<or> n = 133 \<or> n = 160)"

definition str_strip :: "string \<Rightarrow> string" where
  "str_strip s = rev (dropWhile is_space (rev (dropWhile is_space s)))"

text \<open>
  \<^verbatim>\<open>s.replace(old, new)\<close> for a non-empty \<open>old\<close>: every occurrence, left to right,
  without overlap.
\<close>

fun str_replace :: "string \<Rightarrow> string \<Rightarrow> string \<Rightarrow> string" where
  "str_replace old new [] = []"
| "str_replace old new (c # cs) =
     (if old \<noteq> [] \<and> starts_with old (c # cs)
      then new @ str_replace old new (drop (length old) (c # cs))
      else c # str_replace old new cs)"

text \<open>Collecting results left to right; the first exception wins.\<close>

fun collect :: "(exc + 'a) list \<Rightarrow> exc + 'a list" where
  "collect [] = Inr []"
| "collect (Inl e # rs) = Inl e"
| "collect (Inr v # rs) = (case collect rs of Inl e \<Rightarrow> Inl e | Inr vs \<Rightarrow> Inr (v # vs))"

section \<open>The record store\<close>

definition CSV_HEADERS :: "string list" where
  "CSV_HEADERS =
     [''Timestamp'', ''URL'',
      ''Agent Name'', ''Agent Phone'', ''Agency Name'', ''Agent License'',
      ''Title'', ''Price'', ''Address'', ''District'',
      ''Property Type'', ''Tenure'', ''Built Year'', ''Developer'',
      ''Bedrooms'', ''Bathrooms'', ''Size (sqft)'', ''Price per sqft'',
      ''Furnishing'', ''Floor Level'', ''Facilities'', ''Description Summary'']"

text \<open>
  The file \<^verbatim>\<open>property_data_full.csv\<close> is the rows handed to \<^verbatim>\<open>writerow\<close>, each a
  list of Python values; \<open>None\<close> is the absent file. The text the \<^verbatim>\<open>csv\<close> module
  makes of a row is not modelled. What the operating system does is part of the
  state: \<open>open_fault\<close> is the exception that opening the file for writing raises
  (\<open>PermissionError\<close> when another process holds it), \<open>write_fault\<close> the one that
  writing a row to the opened file raises. Console output is not modelled.
\<close>

record 'f fs =
  csv_file :: "'f json list list option"
  open_fault :: "exc option"
  write_fault :: "exc option"

text \<open>\<^verbatim>\<open>open(CSV_FILE, mode='w')\<close> creates or empties the file.\<close>

definition open_w :: "'f fs \<Rightarrow> (exc + unit) \<times> 'f fs" where
  "open_w s =
     (case open_fault s of
        Some e \<Rightarrow> (Inl e, s)
      | None \<Rightarrow> (Inr (), s\<lparr>csv_file := Some []\<rparr>))"

text \<open>\<^verbatim>\<open>open(CSV_FILE, mode='a')\<close> creates the file when it is absent.\<close>

definition open_a :: "'f fs \<Rightarrow> (exc + unit) \<times> 'f fs" where
  "open_a s =
     (case open_fault s of
        Some e \<Rightarrow> (Inl e, s)
      | None \<Rightarrow>
          (Inr (), s\<lparr>csv_file := Some (case csv_file s of None \<Rightarrow> [] | Some rs \<Rightarrow> rs)\<rparr>))"

definition writerow :: "'f json list \<Rightarrow> 'f fs \<Rightarrow> (exc + unit) \<times> 'f fs" where
  "writerow row s =
     (case write_fault s of
        Some e \<Rightarrow> (Inl e, s)
      | None \<Rightarrow>
          (Inr (), s\<lparr>csv_file := Some ((case csv_file s of None \<Rightarrow> [] | Some rs \<Rightarrow> rs) @ [row])\<rparr>))"

text \<open>
  \<^verbatim>\<open>init_csv\<close>: the body of the \<^verbatim>\<open>try\<close>, then the handler, which catches
  \<open>PermissionError\<close> only.
\<close>

definition init_csv_body :: "'f fs \<Rightarrow> (exc + unit) \<times> 'f fs" where
  "init_csv_body s =
     (if csv_file s = None then
        (case open_w s of
           (Inl e, s1) \<Rightarrow> (Inl e, s1)
         | (Inr u, s1) \<Rightarrow> writerow (map JStr CSV_HEADERS) s1)
      else (Inr (), s))"

definition init_csv :: "'f fs \<Rightarrow> (exc + unit) \<times> 'f fs" where
  "init_csv s =
     (case init_csv_body s of
        (Inr u, s1) \<Rightarrow> (Inr (), s1)
      | (Inl e, s1) \<Rightarrow>
          (if exc_class_of e = PermissionError then (Inr (), s1) else (Inl e, s1)))"

text \<open>\<^verbatim>\<open>type(v).__name__\<close> and \<^verbatim>\<open>data.get(key, default)\<close>.\<close>

fun type_name :: "'f json \<Rightarrow> string" where
  "type_name JNull = ''NoneType''"
| "type_name (JBool b) = ''bool''"
| "type_name (JInt i) = ''int''"
| "type_name (JFloat f) = ''float''"
| "type_name (JStr s) = ''str''"
| "type_name (JArr vs) = ''list''"
| "type_name (JObj kvs) = ''dict''"

fun dict_get :: "'f json \<Rightarrow> string \<Rightarrow> 'f json \<Rightarrow> exc + 'f json" where
  "dict_get (JObj kvs) k d = Inr (case map_of kvs k of None \<Rightarrow> d | Some v \<Rightarrow> v)"
| "dict_get v k d =
     Inl (Exc AttributeError
       ([CHR 0x27] @ type_name v @ [CHR 0x27] @ '' object has no attribute ''
        @ [CHR 0x27] @ ''get'' @ [CHR 0x27]))"

definition row_data :: "string \<Rightarrow> string \<Rightarrow> 'f json \<Rightarrow> exc + 'f json list" where
  "row_data now url data =
     collect
      [Inr (JStr now),
       Inr (JStr url),
       dict_get data ''agent_name'' (JStr ''N/A''),
       dict_get data ''agent_phone'' (JStr ''N/A''),
       dict_get data ''agency_name'' (JStr ''N/A''),
       dict_get data ''agent_license'' (JStr ''N/A''),
       dict_get data ''title'' (JStr ''N/A''),
       dict_get data ''price'' (JStr ''N/A''),
       dict_get data ''address'' (JStr ''N/A''),
       dict_get data ''district'' (JStr ''N/A''),
       dict_get data ''property_type'' (JStr ''N/A''),
       dict_get data ''tenure'' (JStr ''N/A''),
       dict_get data ''built_year'' (JStr ''N/A''),
       dict_get data ''developer'' (JStr ''N/A''),
       dict_get data ''bedrooms'' (JStr ''N/A''),
       dict_get data ''bathrooms'' (JStr ''N/A''),
       dict_get data ''size_sqft'' (JStr ''N/A''),
       dict_get data ''psf'' (JStr ''N/A''),
       dict_get data ''furnishing'' (JStr ''N/A''),
       dict_get data ''floor_level'' (JStr ''N/A''),
       dict_get data ''facilities'' (JStr ''N/A''),
       dict_get data ''description_summary'' (JStr ''N/A'')]"

text \<open>
  \<^verbatim>\<open>save_to_csv\<close>: the body of the \<^verbatim>\<open>try\<close> (\<open>now\<close> is what \<^verbatim>\<open>time.strftime\<close>
  returns), then the two handlers, \<open>PermissionError\<close> first and \<open>Exception\<close> second.
\<close>

definition save_to_csv_body ::
  "string \<Rightarrow> 'f json \<Rightarrow> string \<Rightarrow> 'f fs \<Rightarrow> (exc + unit) \<times> 'f fs" where
  "save_to_csv_body now data url s =
     (case init_csv s of
        (Inl e, s1) \<Rightarrow> (Inl e, s1)
      | (Inr u, s1) \<Rightarrow>
          (case row_data now url data of
             Inl e \<Rightarrow> (Inl e, s1)
           | Inr row \<Rightarrow>
               (case open_a s1 of
                  (Inl e, s2) \<Rightarrow> (Inl e, s2)
                | (Inr u2, s2) \<Rightarrow> writerow row s2)))"

definition save_to_csv ::
  "string \<Rightarrow> 'f json \<Rightarrow> string \<Rightarrow> 'f fs \<Rightarrow> (exc + unit) \<times> 'f fs" where
  "save_to_csv now data url s =
     (case save_to_csv_body now data url s of
        (Inr u, s1) \<Rightarrow> (Inr (), s1)
      | (Inl e, s1) \<Rightarrow>
          (if exc_class_of e = PermissionError then (Inr (), s1)
           else if exc_class_of e \<in> {OSError, AttributeError, Exception} then (Inr (), s1)
           else (Inl e, s1)))"

section \<open>The HTML compressor\<close>

text \<open>
  The document tree \<^verbatim>\<open>BeautifulSoup(raw_html, 'html.parser')\<close> builds: a tag with
  its name and children, a text node (a \<^verbatim>\<open>NavigableString\<close> or \<^verbatim>\<open>CData\<close>), or any
  other node (a comment, a declaration), which \<^verbatim>\<open>get_text\<close> leaves out. The soup
  is the list of the top nodes. The parser belongs to the library and is a
  parameter of the model.
\<close>

datatype node = Tag string "node list" | Text string | Other string

text \<open>
  \<^verbatim>\<open>for tag in soup.find_all(names): tag.decompose()\<close>: every subtree whose root is
  a tag named in \<open>names\<close> is removed.
\<close>

fun decompose_node :: "string list \<Rightarrow> node \<Rightarrow> node"
  and decompose_all :: "string list \<Rightarrow> node list \<Rightarrow> node list" where
  "decompose_node names (Tag n cs) = Tag n (decompose_all names cs)"
| "decompose_node names (Text s) = Text s"
| "decompose_node names (Other s) = Other s"
| "decompose_all names [] = []"
| "decompose_all names (Tag n cs # rest) =
     (if n \<in> set names then decompose_all names rest
      else decompose_node names (Tag n cs) # decompose_all names rest)"
| "decompose_all names (Text s # rest) = decompose_node names (Text s) # decompose_all names rest"
| "decompose_all names (Other s # rest) = decompose_node names (Other s) # decompose_all names rest"

text \<open>
  \<^verbatim>\<open>get_text(separator, strip=True)\<close>: the text nodes in document order, each
  stripped, the empty ones dropped, joined with the separator.
\<close>

fun stripped_strings :: "node \<Rightarrow> string list"
  and stripped_strings_list :: "node list \<Rightarrow> string list" where
  "stripped_strings (Tag n cs) = stripped_strings_list cs"
| "stripped_strings (Text s) = (if str_strip s = [] then [] else [str_strip s])"
| "stripped_strings (Other s) = []"
| "stripped_strings_list [] = []"
| "stripped_strings_list (c # cs) = stripped_strings c @ stripped_strings_list cs"

fun str_join :: "string \<Rightarrow> string list \<Rightarrow> string" where
  "str_join sep [] = []"
| "str_join sep [x] = x"
| "str_join sep (x # y # ys) = x @ sep @ str_join sep (y # ys)"

definition get_text :: "string \<Rightarrow> node list \<Rightarrow> string" where
  "get_text separator soup = str_join separator (stripped_strings_list soup)"

definition junk_tags :: "string list" where
  "junk_tags =
     [''script'', ''style'', ''svg'', ''noscript'', ''iframe'', ''meta'', ''link'',
      ''input'', ''button'', ''img'', ''video'', ''source'', ''picture'']"

definition bloat_tags :: "string list" where
  "bloat_tags = [''header'', ''footer'', ''nav'', ''aside'', ''form'']"

text \<open>\<^verbatim>\<open>clean_html\<close>; \<open>None\<close> is Python's \<^verbatim>\<open>None\<close>.\<close>

definition clean_html :: "(string \<Rightarrow> node list) \<Rightarrow> string option \<Rightarrow> string" where
  "clean_html html_parser raw_html =
     (case raw_html of
        None \<Rightarrow> []
      | Some h \<Rightarrow>
          if h = [] then []
          else
            (let soup = html_parser h;
                 soup1 = decompose_all junk_tags soup;
                 soup2 = decompose_all bloat_tags soup1
             in take 25000 (get_text '' '' soup2)))"

section \<open>The quota-aware invoker\<close>

text \<open>
  What the program does to the world, in order: a script click on an element
  (with the state of the browser at that moment), a \<^verbatim>\<open>time.sleep\<close> (in
  milliseconds), a call of \<^verbatim>\<open>model.generate_content\<close> (numbered from 0).
\<close>

datatype ('b, 'e) event = Click 'b 'e | Sleep nat | Generate nat string

definition is_quota_error :: "exc \<Rightarrow> bool" where
  "is_quota_error e =
     (str_contains ''429'' (str_of_exc e) \<or> str_contains ''quota'' (str_lower (str_of_exc e)))"

text \<open>
  The loop \<^verbatim>\<open>for attempt in range(len(wait_times))\<close> of \<^verbatim>\<open>safe_generate_content\<close>,
  then the \<^verbatim>\<open>raise\<close> after it. The provider is a parameter: \<open>generate n prompt\<close> is
  the outcome of its \<open>n\<close>-th call. Waits are seconds in the source.
\<close>

fun attempt_loop ::
  "(nat \<Rightarrow> string \<Rightarrow> exc + 'r) \<Rightarrow> string \<Rightarrow> nat list \<Rightarrow> nat list
     \<Rightarrow> (exc + 'r) \<times> ('b, 'e) event list" where
  "attempt_loop generate prompt wait_times [] =
     (Inl (Exc Exception ''Failed to get response from Gemini (Quota Exceeded).''), [])"
| "attempt_loop generate prompt wait_times (attempt # rest) =
     (case generate attempt prompt of
        Inr response \<Rightarrow> (Inr response, [Generate attempt prompt])
      | Inl e \<Rightarrow>
          if is_quota_error e then
            (if attempt < length wait_times then
               (let wait = wait_times ! attempt;
                    (r, tr) = attempt_loop generate prompt wait_times rest
                in (r, [Generate attempt prompt, Sleep (wait * 1000)] @ tr))
             else (Inl (Exc Exception ''list index out of range''), [Generate attempt prompt]))
          else (Inl e, [Generate attempt prompt]))"

definition safe_generate_content ::
  "(nat \<Rightarrow> string \<Rightarrow> exc + 'r) \<Rightarrow> string \<Rightarrow> (exc + 'r) \<times> ('b, 'e) event list" where
  "safe_generate_content generate prompt =
     (let wait_times = [5, 30]
      in attempt_loop generate prompt wait_times [0..<length wait_times])"

section \<open>The session: reveal clicks and extraction\<close>

text \<open>
  The browser, the model client, the HTML parser, the JSON parser and the clock
  are what the module calls and does not define. \<open>'b\<close> is the state of the
  browser behind \<^verbatim>\<open>driver_keeper\<close>, \<open>'e\<close> an element handle, \<open>'r\<close> a response
  object. Reading never changes the browser; a script click may.
\<close>

record ('b, 'e, 'r, 'f) env =
  find_elements :: "'b \<Rightarrow> string \<Rightarrow> exc + 'e list"
  tag_name :: "'b \<Rightarrow> 'e \<Rightarrow> exc + string"
  execute_click :: "'b \<Rightarrow> 'e \<Rightarrow> (exc + unit) \<times> 'b"
  current_url :: "'b \<Rightarrow> exc + string"
  page_source :: "'b \<Rightarrow> exc + string"
  html_parser :: "string \<Rightarrow> node list"
  generate_content :: "nat \<Rightarrow> string \<Rightarrow> exc + 'r"
  response_text :: "'r \<Rightarrow> exc + string"
  json_loads :: "string \<Rightarrow> exc + 'f json"
  strftime :: "string"

definition keywords_list :: "string list" where
  "keywords_list = [''Show Number'', ''View'', ''Call'', ''Contact'', ''WhatsApp'']"

definition xpath_contains :: "string \<Rightarrow> string" where
  "xpath_contains key =
     ''//*[contains(text(), '' @ [CHR 0x27] @ key @ [CHR 0x27] @ '')]''"

text \<open>
  The inner loop \<^verbatim>\<open>for el in elements\<close>: an exception from reading the tag or
  from the click is swallowed by the bare \<^verbatim>\<open>except\<close>.
\<close>

fun click_elements ::
  "('b, 'e, 'r, 'f) env \<Rightarrow> 'e list \<Rightarrow> 'b \<Rightarrow> 'b \<times> ('b, 'e) event list" where
  "click_elements api [] b = (b, [])"
| "click_elements api (el # els) b =
     (case tag_name api b el of
        Inl e \<Rightarrow> click_elements api els b
      | Inr t \<Rightarrow>
          if str_lower t = ''a'' then click_elements api els b
          else
            (case execute_click api b el of
               (Inl e, b1) \<Rightarrow>
                 (let (b2, tr) = click_elements api els b1 in (b2, Click b el # tr))
             | (Inr u, b1) \<Rightarrow>
                 (let (b2, tr) = click_elements api els b1
                  in (b2, Click b el # Sleep 100 # tr))))"

text \<open>The outer loop \<^verbatim>\<open>for key in keywords\<close>.\<close>

fun reveal_click ::
  "('b, 'e, 'r, 'f) env \<Rightarrow> string list \<Rightarrow> 'b \<Rightarrow> 'b \<times> ('b, 'e) event list" where
  "reveal_click api [] b = (b, [])"
| "reveal_click api (key # keys) b =
     (case find_elements api b (xpath_contains key) of
        Inl e \<Rightarrow> reveal_click api keys b
      | Inr elements \<Rightarrow>
          (let (b1, tr1) = click_elements api elements b;
               (b2, tr2) = reveal_click api keys b1
           in (b2, tr1 @ tr2)))"

definition build_prompt :: "string \<Rightarrow> string" where
  "build_prompt cleaned_text =
     (let nl = [CHR 0x0A]; ind = replicate 8 (CHR '' '') in
      nl
      @ ind @ ''Extract real estate parameters from this text into JSON.'' @ nl
      @ ind @ ''If a value is missing, use '' @ [CHR 0x22] @ ''N/A'' @ [CHR 0x22] @ ''.'' @ nl
      @ nl
      @ ind @ ''Required Keys:'' @ nl
      @ ind @ ''agent_name, agent_phone, agency_name, agent_license,'' @ nl
      @ ind @ ''title, price, address, district,'' @ nl
      @ ind @ ''property_type, tenure, built_year, developer,'' @ nl
      @ ind @ ''bedrooms, bathrooms, size_sqft, psf,'' @ nl
      @ ind @ ''furnishing, floor_level, facilities, description_summary'' @ nl
      @ nl
      @ ind @ ''Text:'' @ nl
      @ ind @ cleaned_text @ nl
      @ ind @ nl
      @ ind @ ''Return JSON only.'' @ nl
      @ ind)"

datatype http_exception = HTTPException nat string

record 'f scrape_response =
  resp_status :: string
  resp_data :: "'f json"

text \<open>
  The module's one global, \<^verbatim>\<open>driver_keeper\<close> (\<open>None\<close> when no browser is open),
  and the file system.
\<close>

record ('b, 'f) world =
  driver_keeper :: "'b option"
  store :: "'f fs"

definition strip_fences :: "string \<Rightarrow> string" where
  "strip_fences text =
     str_strip (str_replace (replicate 3 (CHR 0x60)) []
       (str_replace (replicate 3 (CHR 0x60) @ ''json'') [] text))"

text \<open>
  \<^verbatim>\<open>scrape_current\<close>. \<open>failed\<close> is the handler \<^verbatim>\<open>except Exception as e\<close> around
  the body, which answers with status 500.
\<close>

definition failed :: "exc \<Rightarrow> http_exception + 'f scrape_response" where
  "failed e = Inl (HTTPException 500 (str_of_exc e))"

definition scrape_current ::
  "('b, 'e, 'r, 'f) env \<Rightarrow> ('b, 'f) world
     \<Rightarrow> (http_exception + 'f scrape_response) \<times> ('b, 'f) world \<times> ('b, 'e) event list" where
  "scrape_current api w =
     (case driver_keeper w of
        None \<Rightarrow> (Inl (HTTPException 400 ''Browser not open.''), w, [])
      | Some b \<Rightarrow>
          (let (b1, tr1) = reveal_click api keywords_list b;
               w1 = w\<lparr>driver_keeper := Some b1\<rparr>;
               tr = tr1 @ [Sleep 1000]
           in case current_url api b1 of
                Inl e \<Rightarrow> (failed e, w1, tr)
              | Inr url \<Rightarrow>
                 (case page_source api b1 of
                    Inl e \<Rightarrow> (failed e, w1, tr)
                  | Inr html \<Rightarrow>
                     (let cleaned_text = clean_html (html_parser api) (Some html);
                          prompt = build_prompt cleaned_text;
                          (res, tr2) = safe_generate_content (generate_content api) prompt
                      in case res of
                           Inl e \<Rightarrow> (failed e, w1, tr @ tr2)
                         | Inr response \<Rightarrow>
                            (case response_text api response of
                               Inl e \<Rightarrow> (failed e, w1, tr @ tr2)
                             | Inr text \<Rightarrow>
                                (case json_loads api (strip_fences text) of
                                   Inl e \<Rightarrow> (failed e, w1, tr @ tr2)
                                 | Inr data \<Rightarrow>
                                    (case save_to_csv (strftime api) data url (store w1) of
                                       (Inl e, s1) \<Rightarrow> (failed e, w1\<lparr>store := s1\<rparr>, tr @ tr2)
                                     | (Inr u, s1) \<Rightarrow>
                                        (Inr \<lparr>resp_status = ''success'', resp_data = data\<rparr>,
                                         w1\<lparr>store := s1\<rparr>, tr @ tr2))))))))"

section \<open>Notions used in the statements\<close>

text \<open>
  The keys read by \<^verbatim>\<open>save_to_csv\<close>, in the order of its \<^verbatim>\<open>data.get\<close> calls (the
  same keys, in the same order, as the prompt lists them).
\<close>

definition schema_keys :: "string list" where
  "schema_keys =
     [''agent_name'', ''agent_phone'', ''agency_name'', ''agent_license'',
      ''title'', ''price'', ''address'', ''district'',
      ''property_type'', ''tenure'', ''built_year'', ''developer'',
      ''bedrooms'', ''bathrooms'', ''size_sqft'', ''psf'',
      ''furnishing'', ''floor_level'', ''facilities'', ''description_summary'']"

text \<open>\<^verbatim>\<open>isinstance(v, dict)\<close>.\<close>

fun is_dict :: "'f json \<Rightarrow> bool" where
  "is_dict (JObj kvs) = True"
| "is_dict v = False"

text \<open>Four of the tags the compressor removes: two junk tags, two bloat tags.\<close>

definition hidden_tags :: "string list" where
  "hidden_tags = [''script'', ''style'', ''nav'', ''footer'']"

text \<open>
  Two documents are the same outside the subtrees rooted at those tags: node by
  node they agree, except that under a tag with one of the four names anything
  may stand on either side.
\<close>

fun same_outside :: "node \<Rightarrow> node \<Rightarrow> bool"
  and same_outside_l :: "node list \<Rightarrow> node list \<Rightarrow> bool" where
  "same_outside (Tag n cs) (Tag m ds) =
     (n = m \<and> (n \<in> set hidden_tags \<or> same_outside_l cs ds))"
| "same_outside (Text s) (Text t) = (s = t)"
| "same_outside (Other s) (Other t) = (s = t)"
| "same_outside x y = False"
| "same_outside_l [] [] = True"
| "same_outside_l (c # cs) (d # ds) = (same_outside c d \<and> same_outside_l cs ds)"
| "same_outside_l xs ys = False"

fun is_generate :: "('b, 'e) event \<Rightarrow> bool" where
  "is_generate (Generate n p) = True"
| "is_generate ev = False"

section \<open>A sample session\<close>

text \<open>
  A listing page with a script, a style sheet, a navigation bar and a footer
  around the listing itself.
\<close>

definition sample_soup :: "node list" where
  "sample_soup =
     [Other ''DOCTYPE html'',
      Tag ''html''
       [Tag ''head''
         [Tag ''script'' [Text ''var tracking = 1;''],
          Tag ''style'' [Text ''p { color: red }'']],
        Tag ''body''
         [Tag ''nav'' [Tag ''ul'' [Text ''Home'', Text ''Listings'']],
          Tag ''div''
           [Text ''  Agent: Jane Tan  '', Other ''a comment'',
            Tag ''p'' [Text ''Price: $1,200,000''], Text ''   ''],
          Tag ''footer'' [Text ''All rights reserved'']]]]"

text \<open>
  The same page with other scripts, styles, navigation and footer: among them
  text that looks like listing data.
\<close>

definition sample_soup_other :: "node list" where
  "sample_soup_other =
     [Other ''DOCTYPE html'',
      Tag ''html''
       [Tag ''head''
         [Tag ''script'' [Text ''alert(1)'', Tag ''b'' [Text ''Agent: Nobody'']],
          Tag ''style'' []],
        Tag ''body''
         [Tag ''nav'' [Text ''Price: $1''],
          Tag ''div''
           [Text ''  Agent: Jane Tan  '', Other ''a comment'',
            Tag ''p'' [Text ''Price: $1,200,000''], Text ''   ''],
          Tag ''footer'' []]]]"

definition sample_json_text :: string where
  "sample_json_text =
     ''{'' @ [CHR 0x22] @ ''agent_name'' @ [CHR 0x22] @ '': ''
     @ [CHR 0x22] @ ''Jane Tan'' @ [CHR 0x22] @ ''}''"

text \<open>The reply of the model: the JSON text inside a code fence.\<close>

definition sample_reply :: string where
  "sample_reply =
     replicate 3 (CHR 0x60) @ ''json'' @ [CHR 0x0A] @ sample_json_text @ [CHR 0x0A]
     @ replicate 3 (CHR 0x60)"

text \<open>
  A browser whose state is the list of the elements clicked so far. Three
  elements contain ``Show Number'': a link, a button, and one that has gone
  stale. The look-up for ``Call'' fails. The model is over quota at the first
  call and answers at the second; \<open>parsed\<close> is what \<^verbatim>\<open>json.loads\<close> makes of its
  answer.
\<close>

definition sample_api :: "unit json \<Rightarrow> (nat list, nat, string, unit) env" where
  "sample_api parsed =
     \<lparr>find_elements = (\<lambda>b q.
          if q = xpath_contains ''Show Number'' then Inr [1, 2, 3]
          else if q = xpath_contains ''Call'' then Inl (Exc Exception ''no such window'')
          else Inr []),
      tag_name = (\<lambda>b el.
          if el = 1 then Inr ''A''
          else if el = 2 then Inr ''button''
          else Inl (Exc Exception ''stale element reference'')),
      execute_click = (\<lambda>b el. (Inr (), b @ [el])),
      current_url = (\<lambda>b. Inr ''https://example.com/listing/1''),
      page_source = (\<lambda>b. Inr ''<html>sample</html>''),
      html_parser = (\<lambda>h. sample_soup),
      generate_content = (\<lambda>n p.
          if n = 0 then Inl (Exc Exception ''429 Too Many Requests'') else Inr ''reply''),
      response_text = (\<lambda>r. Inr sample_reply),
      json_loads = (\<lambda>s.
          if s = sample_json_text then Inr parsed
          else Inl (Exc Exception ''Expecting value'')),
      strftime = ''2025-01-01 12:00:00''\<rparr>"

definition sample_record :: "unit json" where
  "sample_record = JObj [(''agent_name'', JStr ''Jane Tan''), (''price'', JNull)]"

text \<open>
  A browser whose window has been closed: \<^verbatim>\<open>driver_keeper\<close> still holds the
  handle, and every call on it raises.
\<close>

definition dead_api :: "(nat list, nat, string, unit) env" where
  "dead_api =
     \<lparr>find_elements = (\<lambda>b q. Inl (Exc Exception ''invalid session id'')),
      tag_name = (\<lambda>b el. Inl (Exc Exception ''invalid session id'')),
      execute_click = (\<lambda>b el. (Inl (Exc Exception ''invalid session id''), b)),
      current_url = (\<lambda>b. Inl (Exc Exception ''invalid session id'')),
      page_source = (\<lambda>b. Inl (Exc Exception ''invalid session id'')),
      html_parser = (\<lambda>h. []),
      generate_content = (\<lambda>n p. Inr ''reply''),
      response_text = (\<lambda>r. Inr sample_reply),
      json_loads = (\<lambda>s. Inr sample_record),
      strftime = ''2025-01-01 12:00:00''\<rparr>"

text \<open>An existing file that another process holds open, and no file at all.\<close>

definition locked_store :: "unit fs" where
  "locked_store =
     \<lparr>csv_file = Some [map JStr CSV_HEADERS],
      open_fault = Some (Exc PermissionError ''[Errno 13] Permission denied''),
      write_fault = None\<rparr>"

definition empty_store :: "unit fs" where
  "empty_store = \<lparr>csv_file = None, open_fault = None, write_fault = None\<rparr>"

section \<open>The record store: properties\<close>

lemma row_data_dict:
  "row_data now url (JObj kvs) =
     Inr (JStr now # JStr url #
          map (\<lambda>k. case map_of kvs k of None \<Rightarrow> JStr ''N/A'' | Some v \<Rightarrow> v) schema_keys)"
  by (simp add: row_data_def schema_keys_def)

lemma row_data_not_dict:
  "\<not> is_dict d \<Longrightarrow> \<exists>e. row_data now url d = Inl e"
  by (cases d) (simp_all add: row_data_def)

text \<open>What \<^verbatim>\<open>init_csv\<close> does, by the state of the file and of the system.\<close>

lemma init_csv_cases:
  "init_csv s =
     (case csv_file s of
        Some rs \<Rightarrow> (Inr (), s)
      | None \<Rightarrow>
         (case open_fault s of
            Some e \<Rightarrow> (if exc_class_of e = PermissionError then Inr () else Inl e, s)
          | None \<Rightarrow>
             (case write_fault s of
                Some e \<Rightarrow> (if exc_class_of e = PermissionError then Inr () else Inl e,
                           s\<lparr>csv_file := Some []\<rparr>)
              | None \<Rightarrow> (Inr (), s\<lparr>csv_file := Some [map JStr CSV_HEADERS]\<rparr>))))"
proof (cases "csv_file s")
  case None
  note absent = this
  show ?thesis
  proof (cases "open_fault s")
    case None
    then show ?thesis
      using absent
      by (cases "write_fault s")
         (simp_all add: init_csv_def init_csv_body_def open_w_def writerow_def)
  next
    case (Some e)
    then show ?thesis
      using absent by (simp add: init_csv_def init_csv_body_def open_w_def)
  qed
next
  case (Some rs)
  then show ?thesis by (simp add: init_csv_def init_csv_body_def)
qed

lemma init_csv_fresh:
  "csv_file s = None \<Longrightarrow> open_fault s = None \<Longrightarrow> write_fault s = None \<Longrightarrow>
   init_csv s = (Inr (), s\<lparr>csv_file := Some [map JStr CSV_HEADERS]\<rparr>)"
  by (simp add: init_csv_cases)

lemma init_csv_existing:
  "csv_file s = Some rs \<Longrightarrow> init_csv s = (Inr (), s)"
  by (simp add: init_csv_cases)

lemma init_csv_still_absent:
  "csv_file (snd (init_csv s)) = None \<Longrightarrow> snd (init_csv s) = s"
  by (simp add: init_csv_cases split: option.splits)

lemma init_csv_twice: "snd (init_csv (snd (init_csv s))) = snd (init_csv s)"
proof (cases "csv_file (snd (init_csv s))")
  case None
  then show ?thesis by (simp add: init_csv_still_absent)
next
  case (Some rs)
  then show ?thesis by (simp add: init_csv_existing)
qed

lemma init_csv_many:
  "((\<lambda>s. snd (init_csv s)) ^^ Suc n) s = snd (init_csv s)"
proof (induction n)
  case 0
  show ?case by simp
next
  case (Suc n)
  have "((\<lambda>s. snd (init_csv s)) ^^ Suc (Suc n)) s =
        snd (init_csv (((\<lambda>s. snd (init_csv s)) ^^ Suc n) s))"
    by simp
  also have "\<dots> = snd (init_csv (snd (init_csv s)))"
    by (simp only: Suc.IH)
  also have "\<dots> = snd (init_csv s)"
    by (rule init_csv_twice)
  finally show ?case .
qed

text \<open>Both handlers of \<^verbatim>\<open>save_to_csv\<close> end normally, and neither touches the file.\<close>

lemma save_to_csv_returns: "fst (save_to_csv now d url s) = Inr ()"
proof -
  obtain r s1 where b: "save_to_csv_body now d url s = (r, s1)"
    by (cases "save_to_csv_body now d url s")
  show ?thesis
  proof (cases r)
    case (Inl e)
    then show ?thesis using b by (cases "exc_class_of e") (simp_all add: save_to_csv_def)
  next
    case (Inr u)
    then show ?thesis using b by (simp add: save_to_csv_def)
  qed
qed

lemma save_to_csv_state:
  "snd (save_to_csv now d url s) = snd (save_to_csv_body now d url s)"
proof -
  obtain r s1 where b: "save_to_csv_body now d url s = (r, s1)"
    by (cases "save_to_csv_body now d url s")
  show ?thesis
  proof (cases r)
    case (Inl e)
    then show ?thesis using b by (cases "exc_class_of e") (simp_all add: save_to_csv_def)
  next
    case (Inr u)
    then show ?thesis using b by (simp add: save_to_csv_def)
  qed
qed

lemma save_to_csv_not_dict:
  assumes "\<not> is_dict d"
  shows "snd (save_to_csv now d url s) = snd (init_csv s)"
proof -
  obtain e where e: "row_data now url d = Inl e"
    using row_data_not_dict [OF assms] by blast
  show ?thesis
    unfolding save_to_csv_state
    by (cases "init_csv s") (simp add: save_to_csv_body_def e split: sum.splits)
qed

lemma save_to_csv_appends:
  assumes "open_fault s = None" and "write_fault s = None"
  shows "csv_file (snd (save_to_csv now (JObj kvs) url s)) =
     Some ((case csv_file s of None \<Rightarrow> [map JStr CSV_HEADERS] | Some rs \<Rightarrow> rs) @
           [JStr now # JStr url #
            map (\<lambda>k. case map_of kvs k of None \<Rightarrow> JStr ''N/A'' | Some v \<Rightarrow> v) schema_keys])"
proof (cases "csv_file s")
  case None
  then show ?thesis
    using assms unfolding save_to_csv_state
    by (simp add: save_to_csv_body_def init_csv_fresh row_data_dict open_a_def writerow_def)
next
  case (Some rs)
  then show ?thesis
    using assms unfolding save_to_csv_state
    by (simp add: save_to_csv_body_def init_csv_existing row_data_dict open_a_def writerow_def)
qed

lemma save_to_csv_open_fault:
  assumes "open_fault s = Some e"
  shows "snd (save_to_csv now d url s) = s"
proof -
  have i: "snd (init_csv s) = s"
    using assms by (simp add: init_csv_cases split: option.splits)
  obtain r where r: "init_csv s = (r, s)"
    using i by (cases "init_csv s") simp
  show ?thesis
    unfolding save_to_csv_state using assms r
    by (simp add: save_to_csv_body_def open_a_def split: sum.splits)
qed

text \<open>
  C1, as amended. The schema has 20 keys, not 21. When the file can be opened
  and written, \<^verbatim>\<open>save_to_csv\<close> appends, for a map missing any number of the 20
  keys, one row: the timestamp, the URL, then for each of the 20 keys in order
  the value supplied, unchanged, or \<open>N/A\<close> where the key is absent. The row has
  22 values, as many as the header has columns; a file that was absent gets the
  header row first.
\<close>

theorem save_to_csv_row:
  assumes "open_fault s = None" and "write_fault s = None"
  shows "csv_file (snd (save_to_csv now (JObj kvs) url s)) =
           Some ((case csv_file s of None \<Rightarrow> [map JStr CSV_HEADERS] | Some rs \<Rightarrow> rs) @
                 [JStr now # JStr url #
                  map (\<lambda>k. case map_of kvs k of None \<Rightarrow> JStr ''N/A'' | Some v \<Rightarrow> v)
                    schema_keys])
         \<and> length schema_keys = 20
         \<and> length (JStr now # JStr url #
                  map (\<lambda>k. case map_of kvs k of None \<Rightarrow> JStr ''N/A'' | Some v \<Rightarrow> v)
                    schema_keys) = length CSV_HEADERS
         \<and> length CSV_HEADERS = 22"
proof -
  have "length schema_keys = 20"
    by (simp add: schema_keys_def)
  moreover have "length CSV_HEADERS = 22"
    by (simp add: CSV_HEADERS_def)
  ultimately show ?thesis
    using save_to_csv_appends [OF assms] by simp
qed

theorem save_to_csv_row_witness:
  "csv_file (snd (save_to_csv ''2025-01-01 12:00:00'' sample_record
      ''https://example.com/listing/1'' empty_store)) =
     Some [map JStr CSV_HEADERS,
           [JStr ''2025-01-01 12:00:00'', JStr ''https://example.com/listing/1'',
            JStr ''Jane Tan'', JStr ''N/A'', JStr ''N/A'', JStr ''N/A'',
            JStr ''N/A'', JNull, JStr ''N/A'', JStr ''N/A'',
            JStr ''N/A'', JStr ''N/A'', JStr ''N/A'', JStr ''N/A'',
            JStr ''N/A'', JStr ''N/A'', JStr ''N/A'', JStr ''N/A'',
            JStr ''N/A'', JStr ''N/A'', JStr ''N/A'', JStr ''N/A'']]"
proof -
  have o: "open_fault empty_store = None" and w: "write_fault empty_store = None"
    by (simp_all add: empty_store_def)
  show ?thesis
    using save_to_csv_row [OF o w, of "''2025-01-01 12:00:00''"
        "[(''agent_name'', JStr ''Jane Tan''), (''price'', JNull)]"
        "''https://example.com/listing/1''"]
    by (simp add: sample_record_def empty_store_def schema_keys_def)
qed

text \<open>
  The row written for a map with one of the keys has 20 field values after the
  timestamp and the URL, not 21.
\<close>

theorem save_to_csv_row_not_21:
  "length (drop 2 (last (the (csv_file (snd (save_to_csv ''2025-01-01 12:00:00''
      (JObj [(''agent_name'', JStr ''Jane Tan'')] :: unit json)
      ''https://example.com/listing/1''
      \<lparr>csv_file = None, open_fault = None, write_fault = None\<rparr>)))))) = 20
   \<and> length (drop 2 (last (the (csv_file (snd (save_to_csv ''2025-01-01 12:00:00''
      (JObj [(''agent_name'', JStr ''Jane Tan'')] :: unit json)
      ''https://example.com/listing/1''
      \<lparr>csv_file = None, open_fault = None, write_fault = None\<rparr>)))))) \<noteq> 21"
  by (simp add: save_to_csv_def save_to_csv_body_def init_csv_def init_csv_body_def
      open_w_def open_a_def writerow_def row_data_def)

text \<open>
  C9. \<^verbatim>\<open>init_csv\<close> is idempotent. When the file is absent and can be created and
  written, it is created with the header row and nothing else. When the file
  exists it is left as it is, whatever the state of the system. In every state,
  also a failing one, any number of calls in a row leaves the file system as
  one call does.
\<close>

theorem init_csv_idempotent:
  "(csv_file s = None \<and> open_fault s = None \<and> write_fault s = None \<longrightarrow>
      init_csv s = (Inr (), s\<lparr>csv_file := Some [map JStr CSV_HEADERS]\<rparr>))
   \<and> (csv_file s \<noteq> None \<longrightarrow> init_csv s = (Inr (), s))
   \<and> ((\<lambda>s. snd (init_csv s)) ^^ Suc n) s = snd (init_csv s)"
proof -
  have "csv_file s \<noteq> None \<longrightarrow> init_csv s = (Inr (), s)"
    using init_csv_existing [of s] by (cases "csv_file s") simp_all
  then show ?thesis
    using init_csv_fresh [of s] init_csv_many [of n s] by blast
qed

theorem init_csv_idempotent_witness:
  "init_csv empty_store = (Inr (), empty_store\<lparr>csv_file := Some [map JStr CSV_HEADERS]\<rparr>)
   \<and> init_csv locked_store = (Inr (), locked_store)
   \<and> ((\<lambda>s. snd (init_csv s)) ^^ Suc 2) empty_store = snd (init_csv empty_store)"
proof -
  have e: "csv_file empty_store = None \<and> open_fault empty_store = None
             \<and> write_fault empty_store = None"
    by (simp add: empty_store_def)
  have l: "csv_file locked_store \<noteq> None"
    by (simp add: locked_store_def)
  show ?thesis
    using init_csv_idempotent [of empty_store 2] init_csv_idempotent [of locked_store 0] e l
    by blast
qed

section \<open>The invoker: properties\<close>

lemma attempts_range: "[0..<length [5::nat, 30]] = [0, Suc 0]"
  by (simp add: upt_rec)

lemma safe_generate_content_two_quota:
  assumes "generate 0 prompt = Inl e0" and "is_quota_error e0"
    and "generate (Suc 0) prompt = Inl e1" and "is_quota_error e1"
  shows "safe_generate_content generate prompt =
     (Inl (Exc Exception ''Failed to get response from Gemini (Quota Exceeded).''),
      [Generate 0 prompt, Sleep 5000, Generate (Suc 0) prompt, Sleep 30000])"
  using assms by (simp add: safe_generate_content_def attempts_range)

lemma resource_exhausted_is_quota:
  "is_quota_error (Exc Exception ''429 Resource has been exhausted (e.g. check quota).'')"
  by (simp add: is_quota_error_def)

lemma unavailable_is_not_quota:
  "\<not> is_quota_error (Exc Exception ''503 Service Unavailable'')"
  by code_simp

text \<open>
  C2. With a provider that answers every call with a quota error, the invoker
  calls it twice, not three times: it sleeps 5 seconds, calls again, sleeps 30
  seconds, and then raises its own error without the retry that the second
  sleep was for. The error it raises is the invoker's, not the provider's.
\<close>

theorem safe_generate_content_always_quota:
  "safe_generate_content
     (\<lambda>n p. Inl (Exc Exception ''429 Resource has been exhausted (e.g. check quota).''))
     prompt =
     (Inl (Exc Exception ''Failed to get response from Gemini (Quota Exceeded).''),
      [Generate 0 prompt, Sleep 5000, Generate (Suc 0) prompt, Sleep 30000])
   \<and> length (filter is_generate
        [Generate 0 prompt, Sleep 5000, Generate (Suc 0) prompt, Sleep 30000]) = 2"
  using safe_generate_content_two_quota
    [of "\<lambda>n p. Inl (Exc Exception ''429 Resource has been exhausted (e.g. check quota).'')"
        prompt, OF refl resource_exhausted_is_quota refl resource_exhausted_is_quota]
  by simp

text \<open>
  C3. When the first call of the provider fails with an error that is not a
  quota error, the invoker raises that same error at once: one call, no sleep,
  no retry.
\<close>

theorem safe_generate_content_propagates:
  assumes "generate 0 prompt = Inl e" and "\<not> is_quota_error e"
  shows "safe_generate_content generate prompt = (Inl e, [Generate 0 prompt])"
  using assms by (simp add: safe_generate_content_def attempts_range)

theorem safe_generate_content_propagates_witness:
  "safe_generate_content (\<lambda>n p. Inl (Exc Exception ''503 Service Unavailable'')) ''Extract'' =
     (Inl (Exc Exception ''503 Service Unavailable''), [Generate 0 ''Extract''])"
  using safe_generate_content_propagates
    [of "\<lambda>n p. Inl (Exc Exception ''503 Service Unavailable'')" "''Extract''",
     OF refl unavailable_is_not_quota] .

section \<open>The compressor: properties\<close>

lemma decompose_twice:
  "decompose_node A (decompose_node B n) = decompose_node (A @ B) n"
  "decompose_all A (decompose_all B ns) = decompose_all (A @ B) ns"
  by (induction B n and B ns rule: decompose_node_decompose_all.induct) auto

lemma decompose_set:
  "set A = set B \<Longrightarrow> decompose_node A n = decompose_node B n"
  "set A = set B \<Longrightarrow> decompose_all A ns = decompose_all B ns"
  by (induction A n and A ns rule: decompose_node_decompose_all.induct) auto

lemma hidden_absorbed:
  "decompose_all bloat_tags (decompose_all junk_tags (decompose_all hidden_tags soup)) =
   decompose_all bloat_tags (decompose_all junk_tags soup)"
proof -
  have s: "set (bloat_tags @ junk_tags @ hidden_tags) = set (bloat_tags @ junk_tags)"
    by (auto simp add: bloat_tags_def junk_tags_def hidden_tags_def)
  have "decompose_all bloat_tags (decompose_all junk_tags (decompose_all hidden_tags soup)) =
        decompose_all (bloat_tags @ junk_tags @ hidden_tags) soup"
    by (simp only: decompose_twice)
  also have "\<dots> = decompose_all (bloat_tags @ junk_tags) soup"
    by (rule decompose_set(2) [OF s])
  also have "\<dots> = decompose_all bloat_tags (decompose_all junk_tags soup)"
    by (simp only: decompose_twice)
  finally show ?thesis .
qed

lemma sample_text:
  "get_text '' '' (decompose_all bloat_tags (decompose_all junk_tags sample_soup)) =
     ''Agent: Jane Tan Price: $1,200,000''"
  by code_simp

lemma clean_html_same_outside:
  assumes "decompose_all hidden_tags (parser h) = decompose_all hidden_tags (parser' h)"
  shows "clean_html parser (Some h) = clean_html parser' (Some h)"
proof -
  have "decompose_all bloat_tags (decompose_all junk_tags (parser h)) =
        decompose_all bloat_tags (decompose_all junk_tags (parser' h))"
    using hidden_absorbed [of "parser h"] hidden_absorbed [of "parser' h"] assms by simp
  then show ?thesis
    by (simp add: clean_html_def)
qed

lemma long_text:
  "clean_html (\<lambda>h. [Tag ''p'' [Text (replicate 30000 (CHR ''x''))]]) (Some ''<p>'') =
     replicate 25000 (CHR ''x'')"
  by (simp add: clean_html_def junk_tags_def bloat_tags_def get_text_def str_strip_def
      is_space_def)

text \<open>
  C6. Whatever the input and whatever the parser makes of it, the output of
  \<^verbatim>\<open>clean_html\<close> has at most 25000 characters: for a non-empty input it is the
  first 25000 characters of the collapsed text of the cleaned document, cut
  wherever that falls.
\<close>

theorem clean_html_length:
  "length (clean_html parser raw_html) \<le> 25000
   \<and> (\<forall>h. raw_html = Some h \<and> h \<noteq> [] \<longrightarrow>
        clean_html parser raw_html =
          take 25000
            (get_text '' '' (decompose_all bloat_tags (decompose_all junk_tags (parser h)))))"
  by (simp add: clean_html_def Let_def split: option.splits)

theorem clean_html_length_witness:
  "length (clean_html (\<lambda>h. [Tag ''p'' [Text (replicate 30000 (CHR ''x''))]]) (Some ''<p>''))
     \<le> 25000
   \<and> clean_html (\<lambda>h. [Tag ''p'' [Text (replicate 30000 (CHR ''x''))]]) (Some ''<p>'') =
       take 25000 (get_text '' '' (decompose_all bloat_tags (decompose_all junk_tags
         [Tag ''p'' [Text (replicate 30000 (CHR ''x''))]])))
   \<and> clean_html (\<lambda>h. [Tag ''p'' [Text (replicate 30000 (CHR ''x''))]]) (Some ''<p>'') =
       replicate 25000 (CHR ''x'')"
  using clean_html_length
    [of "\<lambda>h. [Tag ''p'' [Text (replicate 30000 (CHR ''x''))]]" "Some ''<p>''"]
    long_text
  by simp

lemma decompose_all_append:
  "decompose_all names (xs @ ys) = decompose_all names xs @ decompose_all names ys"
proof (induction xs)
  case Nil
  show ?case by simp
next
  case (Cons x xs)
  then show ?case by (cases x) simp_all
qed

lemma decompose_all_Cons:
  "decompose_all names (x # xs) = decompose_all names [x] @ decompose_all names xs"
  using decompose_all_append [of names "[x]" xs] by simp

lemma same_outside_decompose:
  "same_outside x y \<Longrightarrow> decompose_all hidden_tags [x] = decompose_all hidden_tags [y]"
  "same_outside_l xs ys \<Longrightarrow> decompose_all hidden_tags xs = decompose_all hidden_tags ys"
proof (induction x y and xs ys rule: same_outside_same_outside_l.induct)
  fix c cs d ds
  assume "same_outside_l (c # cs) (d # ds)"
    and "same_outside c d \<Longrightarrow> decompose_all hidden_tags [c] = decompose_all hidden_tags [d]"
    and "same_outside_l cs ds \<Longrightarrow> decompose_all hidden_tags cs = decompose_all hidden_tags ds"
  then have "decompose_all hidden_tags [c] = decompose_all hidden_tags [d]"
    and "decompose_all hidden_tags cs = decompose_all hidden_tags ds"
    by simp_all
  then show "decompose_all hidden_tags (c # cs) = decompose_all hidden_tags (d # ds)"
    using decompose_all_Cons [of hidden_tags c cs] decompose_all_Cons [of hidden_tags d ds]
    by simp
qed auto

lemma decompose_hidden_top:
  assumes "n \<in> set hidden_tags"
  shows "decompose_all hidden_tags (pre @ Tag n cs # post) =
         decompose_all hidden_tags (pre @ post)"
  using assms by (simp add: decompose_all_append)

lemma sample_same: "same_outside_l sample_soup sample_soup_other"
  by (simp add: sample_soup_def sample_soup_other_def hidden_tags_def)

text \<open>
  C7. For \<^verbatim>\<open>None\<close> and for the empty string \<^verbatim>\<open>clean_html\<close> returns the empty
  string, whatever the parser would do: it is not consulted. Two documents that
  are the same outside the subtrees rooted at a script, style, nav or footer
  tag give the same output, whatever those subtrees hold; and a document gives
  the same output with such a subtree at its top level as without it. So no
  text from inside such a subtree reaches the output.
\<close>

theorem clean_html_hidden_subtrees:
  "clean_html parser None = []
   \<and> clean_html parser (Some []) = []
   \<and> (same_outside_l (parser h) (parser' h) \<longrightarrow>
        clean_html parser (Some h) = clean_html parser' (Some h))
   \<and> (n \<in> set hidden_tags \<and> parser h = pre @ Tag n cs # post \<and> parser' h = pre @ post \<longrightarrow>
        clean_html parser (Some h) = clean_html parser' (Some h))"
proof (intro conjI impI)
  show "clean_html parser None = []"
    by (simp add: clean_html_def)
  show "clean_html parser (Some []) = []"
    by (simp add: clean_html_def)
  show "clean_html parser (Some h) = clean_html parser' (Some h)"
    if "same_outside_l (parser h) (parser' h)"
    using same_outside_decompose(2) [OF that] by (rule clean_html_same_outside)
  show "clean_html parser (Some h) = clean_html parser' (Some h)"
    if a: "n \<in> set hidden_tags \<and> parser h = pre @ Tag n cs # post \<and> parser' h = pre @ post"
  proof (rule clean_html_same_outside)
    show "decompose_all hidden_tags (parser h) = decompose_all hidden_tags (parser' h)"
      using a decompose_hidden_top [of n pre cs post] by simp
  qed
qed

theorem clean_html_hidden_subtrees_witness:
  "clean_html (\<lambda>h. sample_soup) None = []
   \<and> clean_html (\<lambda>h. sample_soup) (Some []) = []
   \<and> same_outside_l sample_soup sample_soup_other
   \<and> clean_html (\<lambda>h. sample_soup) (Some ''<html>sample</html>'') =
       clean_html (\<lambda>h. sample_soup_other) (Some ''<html>sample</html>'')
   \<and> clean_html (\<lambda>h. sample_soup) (Some ''<html>sample</html>'') =
       ''Agent: Jane Tan Price: $1,200,000''
   \<and> ''script'' \<in> set hidden_tags
   \<and> clean_html (\<lambda>h. [Text ''Jane''] @ Tag ''script'' [Text ''var a = 1;''] # [Text ''Tan''])
         (Some ''<script>'') =
       clean_html (\<lambda>h. [Text ''Jane''] @ [Text ''Tan'']) (Some ''<script>'')"
proof -
  have t: "clean_html (\<lambda>h. sample_soup) (Some ''<html>sample</html>'') =
          ''Agent: Jane Tan Price: $1,200,000''"
    by (simp add: clean_html_def sample_text)
  have m: "''script'' \<in> set hidden_tags"
    by (simp add: hidden_tags_def)
  note one = clean_html_hidden_subtrees
    [where parser = "\<lambda>h. sample_soup" and h = "''<html>sample</html>''"
       and parser' = "\<lambda>h. sample_soup_other" and n = "''script''" and pre = "[]"
       and cs = "[]" and post = "[]"]
  note two = clean_html_hidden_subtrees
    [where parser = "\<lambda>h. [Text ''Jane''] @ Tag ''script'' [Text ''var a = 1;''] # [Text ''Tan'']"
       and h = "''<script>''"
       and parser' = "\<lambda>h. [Text ''Jane''] @ [Text ''Tan'']"
       and n = "''script''" and pre = "[Text ''Jane'']"
       and cs = "[Text ''var a = 1;'']" and post = "[Text ''Tan'']"]
  have a: "clean_html (\<lambda>h. sample_soup) (Some ''<html>sample</html>'') =
           clean_html (\<lambda>h. sample_soup_other) (Some ''<html>sample</html>'')"
    using one sample_same by blast
  have b: "clean_html (\<lambda>h. [Text ''Jane''] @ Tag ''script'' [Text ''var a = 1;''] # [Text ''Tan''])
             (Some ''<script>'') =
           clean_html (\<lambda>h. [Text ''Jane''] @ [Text ''Tan'']) (Some ''<script>'')"
    using two m by blast
  have c: "clean_html (\<lambda>h. sample_soup) None = []
           \<and> clean_html (\<lambda>h. sample_soup) (Some []) = []"
    using one by blast
  show ?thesis
    using a b c t m sample_same by blast
qed

section \<open>The session: properties\<close>

lemma click_elements_clicks:
  "Click b' el \<in> set (snd (click_elements api els b)) \<Longrightarrow>
   \<exists>t. tag_name api b' el = Inr t \<and> str_lower t \<noteq> ''a''"
proof (induction els arbitrary: b)
  case Nil
  then show ?case by simp
next
  case (Cons x xs)
  show ?case
  proof (cases "tag_name api b x")
    case (Inl e)
    then show ?thesis using Cons by simp
  next
    case (Inr t)
    note tag = this
    show ?thesis
    proof (cases "str_lower t = ''a''")
      case True
      then show ?thesis using Cons tag by simp
    next
      case False
      obtain r b1 where ex: "execute_click api b x = (r, b1)"
        by (cases "execute_click api b x")
      obtain b2 tr where rest: "click_elements api xs b1 = (b2, tr)"
        by (cases "click_elements api xs b1")
      have "Click b' el = Click b x \<or> Click b' el \<in> set tr"
        using Cons.prems tag False ex rest by (cases r) auto
      then show ?thesis
      proof
        assume "Click b' el = Click b x"
        then show ?thesis using tag False by simp
      next
        assume "Click b' el \<in> set tr"
        then show ?thesis using Cons.IH [of b1] rest by simp
      qed
    qed
  qed
qed

lemma reveal_click_clicks:
  "Click b' el \<in> set (snd (reveal_click api keys b)) \<Longrightarrow>
   \<exists>t. tag_name api b' el = Inr t \<and> str_lower t \<noteq> ''a''"
proof (induction keys arbitrary: b)
  case Nil
  then show ?case by simp
next
  case (Cons key keys)
  show ?case
  proof (cases "find_elements api b (xpath_contains key)")
    case (Inl e)
    then show ?thesis using Cons by simp
  next
    case (Inr elements)
    obtain b1 tr1 where c: "click_elements api elements b = (b1, tr1)"
      by (cases "click_elements api elements b")
    obtain b2 tr2 where r: "reveal_click api keys b1 = (b2, tr2)"
      by (cases "reveal_click api keys b1")
    have "Click b' el \<in> set tr1 \<or> Click b' el \<in> set tr2"
      using Cons.prems Inr c r by auto
    then show ?thesis
    proof
      assume "Click b' el \<in> set tr1"
      then show ?thesis using click_elements_clicks [of b' el api elements b] c by simp
    next
      assume "Click b' el \<in> set tr2"
      then show ?thesis using Cons.IH [of b1] r by simp
    qed
  qed
qed

lemma attempt_loop_no_click:
  "Click b el \<notin> set (snd (attempt_loop generate prompt wts as))"
proof (induction as)
  case Nil
  then show ?case by simp
next
  case (Cons a as)
  then show ?case
    by (auto split: sum.splits prod.splits)
qed

lemma safe_generate_content_no_click:
  "safe_generate_content generate prompt = (r, tr) \<Longrightarrow> Click b el \<notin> set tr"
proof -
  have "Click b el \<notin> set (snd (safe_generate_content generate prompt))"
    unfolding safe_generate_content_def Let_def by (rule attempt_loop_no_click)
  then show "safe_generate_content generate prompt = (r, tr) \<Longrightarrow> Click b el \<notin> set tr"
    by simp
qed

text \<open>The clicks of a request are those of its reveal loop.\<close>

lemma scrape_current_clicks:
  assumes "Click b' el \<in> set (snd (snd (scrape_current api w)))"
  shows "\<exists>b. driver_keeper w = Some b
           \<and> Click b' el \<in> set (snd (reveal_click api keywords_list b))"
proof (cases "driver_keeper w")
  case None
  then show ?thesis using assms by (simp add: scrape_current_def)
next
  case (Some b)
  obtain b1 tr1 where rc: "reveal_click api keywords_list b = (b1, tr1)"
    by (cases "reveal_click api keywords_list b")
  have "Click b' el \<in> set tr1"
  proof (rule ccontr)
    assume n: "Click b' el \<notin> set tr1"
    have "Click b' el \<notin> set (snd (snd (scrape_current api w)))"
      using Some rc n
      by (auto simp add: scrape_current_def Let_def split: sum.splits prod.splits
          dest: safe_generate_content_no_click)
    then show False using assms by simp
  qed
  then show ?thesis using Some rc by simp
qed

text \<open>A request in which every step before the store succeeds.\<close>

lemma scrape_current_success:
  assumes "driver_keeper w = Some b"
    and "reveal_click api keywords_list b = (b1, tr1)"
    and "current_url api b1 = Inr url"
    and "page_source api b1 = Inr html"
    and "safe_generate_content (generate_content api)
           (build_prompt (clean_html (html_parser api) (Some html))) = (Inr response, tr2)"
    and "response_text api response = Inr text"
    and "json_loads api (strip_fences text) = Inr d"
  shows "scrape_current api w =
     (Inr \<lparr>resp_status = ''success'', resp_data = d\<rparr>,
      w\<lparr>driver_keeper := Some b1,
        store := snd (save_to_csv (strftime api) d url (store w))\<rparr>,
      tr1 @ [Sleep 1000] @ tr2)"
proof -
  obtain r s1 where sv: "save_to_csv (strftime api) d url (store w) = (r, s1)"
    by (cases "save_to_csv (strftime api) d url (store w)")
  have "r = Inr ()"
    using save_to_csv_returns [of "strftime api" d url "store w"] sv by simp
  then show ?thesis
    using assms sv by (simp add: scrape_current_def)
qed

text \<open>The sample session, step by step.\<close>

lemma sample_tags: "str_lower ''A'' = ''a''" "str_lower ''button'' \<noteq> ''a''"
  by code_simp+

lemma sample_reveal:
  "reveal_click (sample_api parsed) keywords_list [] = ([2], [Click [] 2, Sleep 100])"
  by (simp add: sample_api_def keywords_list_def xpath_contains_def sample_tags)

lemma sample_generate:
  "safe_generate_content (generate_content (sample_api parsed)) prompt =
     (Inr ''reply'', [Generate 0 prompt, Sleep 5000, Generate (Suc 0) prompt])"
  by (simp add: safe_generate_content_def attempts_range sample_api_def is_quota_error_def)

lemma sample_fences: "strip_fences sample_reply = sample_json_text"
  by code_simp

lemma sample_scrape:
  "scrape_current (sample_api parsed) \<lparr>driver_keeper = Some [], store = s\<rparr> =
     (Inr \<lparr>resp_status = ''success'', resp_data = parsed\<rparr>,
      \<lparr>driver_keeper = Some [2],
        store = snd (save_to_csv ''2025-01-01 12:00:00'' parsed
                      ''https://example.com/listing/1'' s)\<rparr>,
      [Click [] 2, Sleep 100, Sleep 1000,
       Generate 0 (build_prompt (clean_html (\<lambda>h. sample_soup) (Some ''<html>sample</html>''))),
       Sleep 5000,
       Generate (Suc 0)
         (build_prompt (clean_html (\<lambda>h. sample_soup) (Some ''<html>sample</html>'')))])"
proof -
  have h1: "driver_keeper \<lparr>driver_keeper = Some ([]::nat list), store = s\<rparr> = Some []"
    by simp
  have h3: "current_url (sample_api parsed) [2] = Inr ''https://example.com/listing/1''"
    by (simp add: sample_api_def)
  have h4: "page_source (sample_api parsed) [2] = Inr ''<html>sample</html>''"
    by (simp add: sample_api_def)
  have h6: "response_text (sample_api parsed) ''reply'' = Inr sample_reply"
    by (simp add: sample_api_def)
  have h7: "json_loads (sample_api parsed) (strip_fences sample_reply) = Inr parsed"
    by (simp add: sample_fences) (simp add: sample_api_def)
  have p: "html_parser (sample_api parsed) = (\<lambda>h. sample_soup)"
    and t: "strftime (sample_api parsed) = ''2025-01-01 12:00:00''"
    by (simp_all add: sample_api_def)
  show ?thesis
    using scrape_current_success [OF h1 sample_reveal h3 h4 sample_generate h6 h7]
    by (simp add: p t)
qed

text \<open>
  C8. In the reveal loop, for any list of phrases and so for the five of the
  module, and in a whole request, every script click is on an element whose tag
  name was read and is not \<open>a\<close> in any letter case. An element whose tag name
  is \<open>a\<close> is skipped: the loop goes on with the remaining matches as if the
  element were not there.
\<close>

theorem reveal_click_skips_links:
  "(Click b' el \<in> set (snd (reveal_click api keys b)) \<longrightarrow>
      (\<exists>t. tag_name api b' el = Inr t \<and> str_lower t \<noteq> ''a''))
   \<and> (Click b' el \<in> set (snd (snd (scrape_current api w))) \<longrightarrow>
      (\<exists>t. tag_name api b' el = Inr t \<and> str_lower t \<noteq> ''a''))
   \<and> (tag_name api b link = Inr t0 \<and> str_lower t0 = ''a'' \<longrightarrow>
      click_elements api (link # els) b = click_elements api els b)"
proof (intro conjI impI)
  show "\<exists>t. tag_name api b' el = Inr t \<and> str_lower t \<noteq> ''a''"
    if "Click b' el \<in> set (snd (reveal_click api keys b))"
    using that by (rule reveal_click_clicks)
  show "\<exists>t. tag_name api b' el = Inr t \<and> str_lower t \<noteq> ''a''"
    if c: "Click b' el \<in> set (snd (snd (scrape_current api w)))"
  proof -
    obtain b0 where "Click b' el \<in> set (snd (reveal_click api keywords_list b0))"
      using scrape_current_clicks [OF c] by blast
    then show ?thesis by (rule reveal_click_clicks)
  qed
  show "click_elements api (link # els) b = click_elements api els b"
    if "tag_name api b link = Inr t0 \<and> str_lower t0 = ''a''"
    using that by simp
qed

theorem reveal_click_skips_links_witness:
  "Click [] 2 \<in> set (snd (reveal_click (sample_api sample_record) keywords_list []))
   \<and> Click [] 2 \<in> set (snd (snd (scrape_current (sample_api sample_record)
        \<lparr>driver_keeper = Some [], store = empty_store\<rparr>)))
   \<and> (\<exists>t. tag_name (sample_api sample_record) [] 2 = Inr t \<and> str_lower t \<noteq> ''a'')
   \<and> tag_name (sample_api sample_record) [] 1 = Inr ''A'' \<and> str_lower ''A'' = ''a''
   \<and> click_elements (sample_api sample_record) [1, 2, 3] [] =
       click_elements (sample_api sample_record) [2, 3] []"
proof -
  have r: "Click [] 2 \<in> set (snd (reveal_click (sample_api sample_record) keywords_list []))"
    by (simp add: sample_reveal)
  have s: "Click [] 2 \<in> set (snd (snd (scrape_current (sample_api sample_record)
        \<lparr>driver_keeper = Some [], store = empty_store\<rparr>)))"
    by (simp add: sample_scrape)
  have t: "tag_name (sample_api sample_record) [] 1 = Inr ''A'' \<and> str_lower ''A'' = ''a''"
    by (simp add: sample_api_def sample_tags)
  note inst = reveal_click_skips_links
    [where b' = "[]" and el = 2 and api = "sample_api sample_record" and keys = keywords_list
       and b = "[]" and w = "\<lparr>driver_keeper = Some [], store = empty_store\<rparr>"
       and link = 1 and ?t0.0 = "''A''" and els = "[2, 3]"]
  show ?thesis
    using inst r s t by blast
qed

text \<open>
  C4. When every step of a request up to the parsing of the reply succeeds,
  \<^verbatim>\<open>scrape_current\<close> answers with status \<open>success\<close> and the parsed data in every
  state of the store, also when the file cannot be opened or written. When the
  file cannot be opened, the store is left as it was and the answer is the
  same.
\<close>

theorem scrape_current_store_failure:
  fixes api :: "('b, 'e, 'r, 'f) env" and tr2 :: "('b, 'e) event list"
  assumes "driver_keeper w = Some b"
    and "reveal_click api keywords_list b = (b1, tr1)"
    and "current_url api b1 = Inr url"
    and "page_source api b1 = Inr html"
    and "safe_generate_content (generate_content api)
           (build_prompt (clean_html (html_parser api) (Some html))) = (Inr response, tr2)"
    and "response_text api response = Inr text"
    and "json_loads api (strip_fences text) = Inr d"
  shows "fst (scrape_current api w) = Inr \<lparr>resp_status = ''success'', resp_data = d\<rparr>
         \<and> (open_fault (store w) \<noteq> None \<longrightarrow>
              store (fst (snd (scrape_current api w))) = store w)"
proof -
  have "open_fault (store w) \<noteq> None \<longrightarrow>
          snd (save_to_csv (strftime api) d url (store w)) = store w"
    using save_to_csv_open_fault [of "store w" _ "strftime api" d url] by blast
  then show ?thesis
    using scrape_current_success [OF assms] by simp
qed

theorem scrape_current_store_failure_witness:
  "fst (scrape_current (sample_api sample_record)
          \<lparr>driver_keeper = Some [], store = locked_store\<rparr>) =
     Inr \<lparr>resp_status = ''success'', resp_data = sample_record\<rparr>
   \<and> open_fault locked_store \<noteq> None
   \<and> store (fst (snd (scrape_current (sample_api sample_record)
          \<lparr>driver_keeper = Some [], store = locked_store\<rparr>))) = locked_store"
proof -
  have h1: "driver_keeper \<lparr>driver_keeper = Some ([]::nat list), store = locked_store\<rparr> =
              Some []"
    by simp
  have h3: "current_url (sample_api sample_record) [2] = Inr ''https://example.com/listing/1''"
    by (simp add: sample_api_def)
  have h4: "page_source (sample_api sample_record) [2] = Inr ''<html>sample</html>''"
    by (simp add: sample_api_def)
  have h6: "response_text (sample_api sample_record) ''reply'' = Inr sample_reply"
    by (simp add: sample_api_def)
  have h7: "json_loads (sample_api sample_record) (strip_fences sample_reply) =
              Inr sample_record"
    by (simp add: sample_fences) (simp add: sample_api_def)
  have f: "open_fault locked_store \<noteq> None"
    by (simp add: locked_store_def)
  show ?thesis
    using scrape_current_store_failure [OF h1 sample_reveal h3 h4 sample_generate h6 h7] f
    by simp
qed

text \<open>With no handle at all the guard answers at once.\<close>

lemma scrape_current_no_handle:
  "driver_keeper w = None \<Longrightarrow>
   scrape_current api w = (Inl (HTTPException 400 ''Browser not open.''), w, [])"
  by (simp add: scrape_current_def)

text \<open>
  With a handle whose browser is gone the guard lets the request through: every
  look-up of the reveal loop fails and is swallowed, the request sleeps its
  second, and reading the URL raises.
\<close>

lemma reveal_click_dead:
  assumes "\<And>q. \<exists>e. find_elements api b q = Inl e"
  shows "reveal_click api keys b = (b, [])"
proof (induction keys)
  case Nil
  show ?case by simp
next
  case (Cons key keys)
  obtain e where "find_elements api b (xpath_contains key) = Inl e"
    using assms by blast
  then show ?case using Cons by simp
qed

lemma scrape_current_dead_handle:
  assumes "driver_keeper w = Some b"
    and "\<And>q. \<exists>e0. find_elements api b q = Inl e0"
    and "current_url api b = Inl e"
  shows "scrape_current api w = (Inl (HTTPException 500 (str_of_exc e)), w, [Sleep 1000])"
proof -
  have r: "reveal_click api keywords_list b = (b, [])"
    using assms(2) by (rule reveal_click_dead)
  have "w\<lparr>driver_keeper := Some b\<rparr> = w"
    using assms(1) by (cases w) simp
  then show ?thesis
    using assms(1,3) r by (simp add: scrape_current_def failed_def)
qed

text \<open>
  C5. \<^verbatim>\<open>scrape_current\<close> tests the handle for \<^verbatim>\<open>None\<close> only; it does not probe
  it as \<^verbatim>\<open>launch_browser\<close> does. With the handle of a closed browser the request
  does not fail at once with status 400: it runs the reveal loop, sleeps one
  second and fails with status 500. The store is not written.
\<close>

theorem scrape_current_dead_session:
  "scrape_current dead_api \<lparr>driver_keeper = Some [], store = empty_store\<rparr> =
     (Inl (HTTPException 500 ''invalid session id''),
      \<lparr>driver_keeper = Some [], store = empty_store\<rparr>, [Sleep 1000])
   \<and> HTTPException 500 ''invalid session id'' \<noteq> HTTPException 400 ''Browser not open.''"
proof -
  have h1: "driver_keeper \<lparr>driver_keeper = Some ([]::nat list), store = empty_store\<rparr> =
              Some []"
    by simp
  have h2: "\<And>q. \<exists>e0. find_elements dead_api [] q = Inl e0"
    by (simp add: dead_api_def)
  have h3: "current_url dead_api [] = Inl (Exc Exception ''invalid session id'')"
    by (simp add: dead_api_def)
  show ?thesis
    using scrape_current_dead_handle [OF h1 h2 h3] by simp
qed

text \<open>
  C10. \<^verbatim>\<open>save_to_csv\<close> returns normally for every value and in every state of
  the file system. When the value is not a dictionary it does what \<^verbatim>\<open>init_csv\<close>
  does and appends no row. So a request whose reply parses to such a value
  answers with status \<open>success\<close> although no row was appended.
\<close>

theorem save_to_csv_total:
  "fst (save_to_csv now d url s) = Inr ()
   \<and> (\<not> is_dict d \<longrightarrow> snd (save_to_csv now d url s) = snd (init_csv s))
   \<and> (driver_keeper w = Some b
       \<and> reveal_click api keywords_list b = (b1, tr1)
       \<and> current_url api b1 = Inr url
       \<and> page_source api b1 = Inr html
       \<and> safe_generate_content (generate_content api)
            (build_prompt (clean_html (html_parser api) (Some html))) = (Inr response, tr2)
       \<and> response_text api response = Inr reply
       \<and> json_loads api (strip_fences reply) = Inr d
       \<and> \<not> is_dict d \<longrightarrow>
       scrape_current api w =
         (Inr \<lparr>resp_status = ''success'', resp_data = d\<rparr>,
          w\<lparr>driver_keeper := Some b1, store := snd (init_csv (store w))\<rparr>,
          tr1 @ [Sleep 1000] @ tr2))"
proof (intro conjI impI)
  show "fst (save_to_csv now d url s) = Inr ()"
    by (rule save_to_csv_returns)
  show "snd (save_to_csv now d url s) = snd (init_csv s)" if "\<not> is_dict d"
    using that by (rule save_to_csv_not_dict)
  show "scrape_current api w =
         (Inr \<lparr>resp_status = ''success'', resp_data = d\<rparr>,
          w\<lparr>driver_keeper := Some b1, store := snd (init_csv (store w))\<rparr>,
          tr1 @ [Sleep 1000] @ tr2)"
    if h: "driver_keeper w = Some b
       \<and> reveal_click api keywords_list b = (b1, tr1)
       \<and> current_url api b1 = Inr url
       \<and> page_source api b1 = Inr html
       \<and> safe_generate_content (generate_content api)
            (build_prompt (clean_html (html_parser api) (Some html))) = (Inr response, tr2)
       \<and> response_text api response = Inr reply
       \<and> json_loads api (strip_fences reply) = Inr d
       \<and> \<not> is_dict d"
  proof -
    have "snd (save_to_csv (strftime api) d url (store w)) = snd (init_csv (store w))"
      using h save_to_csv_not_dict by blast
    then show ?thesis
      using scrape_current_success [of w b api b1 tr1 url html response tr2 reply d] h
      by simp
  qed
qed

theorem save_to_csv_total_witness:
  "fst (save_to_csv ''2025-01-01 12:00:00'' (JArr [JInt 1]) ''https://example.com/listing/1''
          locked_store) = Inr ()
   \<and> \<not> is_dict (JArr [JInt 1] :: unit json)
   \<and> snd (save_to_csv ''2025-01-01 12:00:00'' (JArr [JInt 1]) ''https://example.com/listing/1''
          locked_store) = locked_store
   \<and> scrape_current (sample_api (JArr [JInt 1]))
        \<lparr>driver_keeper = Some [], store = locked_store\<rparr> =
       (Inr \<lparr>resp_status = ''success'', resp_data = JArr [JInt 1]\<rparr>,
        \<lparr>driver_keeper = Some [2], store = locked_store\<rparr>,
        [Click [] 2, Sleep 100, Sleep 1000,
         Generate 0
           (build_prompt (clean_html (\<lambda>h. sample_soup) (Some ''<html>sample</html>''))),
         Sleep 5000,
         Generate (Suc 0)
           (build_prompt (clean_html (\<lambda>h. sample_soup) (Some ''<html>sample</html>'')))])"
proof -
  let ?d = "JArr [JInt 1] :: unit json"
  let ?w = "\<lparr>driver_keeper = Some ([]::nat list), store = locked_store\<rparr>"
  let ?p = "build_prompt (clean_html (html_parser (sample_api ?d)) (Some ''<html>sample</html>''))"
  have i: "snd (init_csv locked_store) = locked_store"
    by (simp add: init_csv_existing locked_store_def)
  have n: "\<not> is_dict ?d"
    by simp
  have h: "driver_keeper ?w = Some []
       \<and> reveal_click (sample_api ?d) keywords_list [] = ([2], [Click [] 2, Sleep 100])
       \<and> current_url (sample_api ?d) [2] = Inr ''https://example.com/listing/1''
       \<and> page_source (sample_api ?d) [2] = Inr ''<html>sample</html>''
       \<and> safe_generate_content (generate_content (sample_api ?d)) ?p =
           (Inr ''reply'', [Generate 0 ?p, Sleep 5000, Generate (Suc 0) ?p])
       \<and> response_text (sample_api ?d) ''reply'' = Inr sample_reply
       \<and> json_loads (sample_api ?d) (strip_fences sample_reply) = Inr ?d
       \<and> \<not> is_dict ?d"
  proof (intro conjI)
    show "driver_keeper ?w = Some []" by simp
    show "reveal_click (sample_api ?d) keywords_list [] = ([2], [Click [] 2, Sleep 100])"
      by (rule sample_reveal)
    show "current_url (sample_api ?d) [2] = Inr ''https://example.com/listing/1''"
      by (simp add: sample_api_def)
    show "page_source (sample_api ?d) [2] = Inr ''<html>sample</html>''"
      by (simp add: sample_api_def)
    show "safe_generate_content (generate_content (sample_api ?d)) ?p =
           (Inr ''reply'', [Generate 0 ?p, Sleep 5000, Generate (Suc 0) ?p])"
      by (rule sample_generate)
    show "response_text (sample_api ?d) ''reply'' = Inr sample_reply"
      by (simp add: sample_api_def)
    show "json_loads (sample_api ?d) (strip_fences sample_reply) = Inr ?d"
      by (simp add: sample_fences) (simp add: sample_api_def)
    show "\<not> is_dict ?d" by simp
  qed
  have p: "html_parser (sample_api ?d) = (\<lambda>h. sample_soup)"
    by (simp add: sample_api_def)
  note inst = save_to_csv_total
    [where now = "''2025-01-01 12:00:00''" and d = ?d
       and url = "''https://example.com/listing/1''" and s = locked_store
       and w = ?w and b = "[]" and api = "sample_api ?d" and ?b1.0 = "[2]"
       and ?tr1.0 = "[Click [] 2, Sleep 100]" and html = "''<html>sample</html>''"
       and response = "''reply''"
       and ?tr2.0 = "[Generate 0 ?p, Sleep 5000, Generate (Suc 0) ?p]"
       and reply = sample_reply]
  have a: "fst (save_to_csv ''2025-01-01 12:00:00'' ?d ''https://example.com/listing/1''
             locked_store) = Inr ()"
    using inst by blast
  have b: "snd (save_to_csv ''2025-01-01 12:00:00'' ?d ''https://example.com/listing/1''
             locked_store) = locked_store"
    using inst n i by simp
  have c: "scrape_current (sample_api ?d) ?w =
         (Inr \<lparr>resp_status = ''success'', resp_data = ?d\<rparr>,
          ?w\<lparr>driver_keeper := Some [2], store := snd (init_csv (store ?w))\<rparr>,
          [Click [] 2, Sleep 100] @ [Sleep 1000] @
          [Generate 0 ?p, Sleep 5000, Generate (Suc 0) ?p])"
    using inst h by blast
  show ?thesis
    using a b n c by (simp add: i p)
qed

end
